theory Spec2Isabelle
  imports Complex_Main "HOL-Library.Word"
begin

unbundle bit_operations_syntax

section \<open>Option modifiers of the maritaca client (llms/maritaca/options.go)\<close>

text \<open>
  The file under verification declares the \<open>options\<close> struct of the maritaca
  client and sixteen functional options (\<open>WithModel\<close> .. \<open>WithToken\<close>). Each
  option is a closure \<open>func(*options)\<close> that assigns one field of the struct;
  \<open>WithServerURL\<close> additionally calls \<open>url.Parse\<close> and ends the process with
  \<open>log.Fatal\<close> when the parser reports an error.

  Go strings are byte sequences and are modelled by \<open>string\<close> (a list of
  8-bit characters). The options only store their numeric arguments and never
  compute with them or compare them, so Go's \<open>int\<close> is modelled by \<open>int\<close>
  and a \<open>float64\<close> by the real number it denotes; an infinity or a NaN,
  which denotes no real, is outside the model.
\<close>

subsection \<open>The part of package \<open>strings\<close> used by the URL parser\<close>

definition HasPrefix :: "string \<Rightarrow> string \<Rightarrow> bool" where
  "HasPrefix s pre = (length pre \<le> length s \<and> take (length pre) s = pre)"

definition HasSuffix :: "string \<Rightarrow> string \<Rightarrow> bool" where
  "HasSuffix s suf = (length suf \<le> length s \<and> drop (length s - length suf) s = suf)"

text \<open>\<open>strings.Index\<close> and \<open>strings.LastIndex\<close>: the first and the last
  position at which \<open>substr\<close> occurs in \<open>s\<close>, and \<open>-1\<close> when there is none.\<close>

definition Index :: "string \<Rightarrow> string \<Rightarrow> int" where
  "Index s substr =
     (case filter (\<lambda>i. HasPrefix (drop i s) substr) [0 ..< Suc (length s)] of
        [] \<Rightarrow> - 1
      | i # _ \<Rightarrow> int i)"

definition LastIndex :: "string \<Rightarrow> string \<Rightarrow> int" where
  "LastIndex s substr =
     (case filter (\<lambda>i. HasPrefix (drop i s) substr) (rev [0 ..< Suc (length s)]) of
        [] \<Rightarrow> - 1
      | i # _ \<Rightarrow> int i)"

definition Contains :: "string \<Rightarrow> string \<Rightarrow> bool" where
  "Contains s substr = (0 \<le> Index s substr)"

text \<open>\<open>strings.Cut\<close>: the text before and after the first occurrence of
  \<open>sep\<close>, and whether \<open>sep\<close> occurs at all.\<close>

definition Cut :: "string \<Rightarrow> string \<Rightarrow> string \<times> string \<times> bool" where
  "Cut s sep =
     (let i = Index s sep
      in if 0 \<le> i then (take (nat i) s, drop (nat i + length sep) s, True)
         else (s, [], False))"

text \<open>\<open>strings.Count\<close> for a separator of one byte.\<close>

definition Count :: "string \<Rightarrow> char \<Rightarrow> nat" where
  "Count s sep = length (filter (\<lambda>c. c = sep) s)"

text \<open>A byte as the number it holds.\<close>

definition byte :: "char \<Rightarrow> nat" where
  "byte c = of_char c"

definition between :: "char \<Rightarrow> char \<Rightarrow> char \<Rightarrow> bool" where
  "between lo c hi = (byte lo \<le> byte c \<and> byte c \<le> byte hi)"

text \<open>\<open>strings.ToLower\<close> on the bytes \<open>A\<close> .. \<open>Z\<close>. The parser applies it
  to a scheme only, and \<open>getScheme\<close> returns schemes of ASCII letters, digits,
  \<open>+\<close>, \<open>-\<close> and \<open>.\<close>, on which the Unicode mapping of Go is this one.\<close>

definition ToLower :: "string \<Rightarrow> string" where
  "ToLower s = map (\<lambda>c. if between CHR ''A'' c CHR ''Z'' then char_of (byte c + 32) else c) s"

subsection \<open>Package \<open>net/url\<close>: the location type and the parser\<close>

text \<open>
  Modelled from the spec: \<open>url.Parse\<close>, the \<open>url.URL\<close> type and the errors of
  the parser belong to Go's standard library and are not among the source files
  of the repository. The spec says of the parser that it turns a syntactically
  valid URL into a network location with scheme, host and path, and that it
  rejects a string with control characters. The spec gives no algorithm, so
  the definitions below follow the one of \<open>net/url\<close> as of Go 1.21
  (\<open>Parse\<close>, \<open>parse\<close>, \<open>getScheme\<close>, \<open>parseAuthority\<close>, \<open>parseHost\<close>,
  \<open>setPath\<close>, \<open>setFragment\<close>, \<open>unescape\<close>, \<open>escape\<close>, \<open>shouldEscape\<close>),
  function by function. The properties below use the parser in two ways: as
  any function that returns an error or a location, and evaluated on the
  strings they name.
\<close>

record Userinfo =
  username :: string
  password :: string
  passwordSet :: bool

record URL =
  Scheme :: string
  Opaque :: string
  User :: "Userinfo option"
  Host :: string
  Path :: string
  RawPath :: string
  OmitHost :: bool
  ForceQuery :: bool
  RawQuery :: string
  Fragment :: string
  RawFragment :: string

text \<open>\<open>new(URL)\<close>: every field at its zero value.\<close>

definition new_URL :: URL where
  "new_URL = \<lparr>Scheme = [], Opaque = [], User = None, Host = [], Path = [], RawPath = [],
     OmitHost = False, ForceQuery = False, RawQuery = [], Fragment = [], RawFragment = []\<rparr>"

datatype url_err =
    InvalidControlCharacter
  | EmptyURL
  | MissingProtocolScheme
  | InvalidURIForRequest
  | FirstPathSegmentColon
  | MissingBracketInHost
  | InvalidPort string
  | InvalidUserinfo
  | EscapeError string
  | InvalidHostError string

text \<open>\<open>url.Error\<close>: the operation, the text that was parsed and the cause.\<close>

datatype url_Error = Error string string url_err

datatype encoding =
    encodePath
  | encodePathSegment
  | encodeHost
  | encodeZone
  | encodeUserPassword
  | encodeQueryComponent
  | encodeFragment

definition ishex :: "char \<Rightarrow> bool" where
  "ishex c = (between CHR ''0'' c CHR ''9'' \<or> between CHR ''a'' c CHR ''f''
               \<or> between CHR ''A'' c CHR ''F'')"

definition unhex :: "char \<Rightarrow> nat" where
  "unhex c =
     (if between CHR ''0'' c CHR ''9'' then byte c - byte CHR ''0''
      else if between CHR ''a'' c CHR ''f'' then byte c - byte CHR ''a'' + 10
      else if between CHR ''A'' c CHR ''F'' then byte c - byte CHR ''A'' + 10
      else 0)"

definition shouldEscape :: "char \<Rightarrow> encoding \<Rightarrow> bool" where
  "shouldEscape c mode =
     (if between CHR ''a'' c CHR ''z'' \<or> between CHR ''A'' c CHR ''Z''
         \<or> between CHR ''0'' c CHR ''9'' then False
      else if (mode = encodeHost \<or> mode = encodeZone) \<and> c \<in> set ''!$&'()*+,;=:[]<>\"'' then False
      else if c \<in> set ''-_.~'' then False
      else if c \<in> set ''$&+,/:;=?@'' \<and> mode = encodePath then c = CHR ''?''
      else if c \<in> set ''$&+,/:;=?@'' \<and> mode = encodePathSegment
        then c = CHR ''/'' \<or> c = CHR '';'' \<or> c = CHR '','' \<or> c = CHR ''?''
      else if c \<in> set ''$&+,/:;=?@'' \<and> mode = encodeUserPassword
        then c = CHR ''@'' \<or> c = CHR ''/'' \<or> c = CHR ''?'' \<or> c = CHR '':''
      else if c \<in> set ''$&+,/:;=?@'' \<and> mode = encodeQueryComponent then True
      else if c \<in> set ''$&+,/:;=?@'' \<and> mode = encodeFragment then False
      else if mode = encodeFragment \<and> c \<in> set ''!()*'' then False
      else True)"

text \<open>The first loop of \<open>unescape\<close>: every \<open>%\<close> is followed by two
  hexadecimal digits, and a host or zone holds only the bytes it may hold.\<close>

fun unescape_check :: "encoding \<Rightarrow> string \<Rightarrow> url_err option" where
  "unescape_check mode [] = None"
| "unescape_check mode (c # s) =
     (if c = CHR ''%'' then
        (case s of
           h1 # h2 # s' \<Rightarrow>
             if \<not> ishex h1 \<or> \<not> ishex h2 then Some (EscapeError (take 3 (c # s)))
             else if mode = encodeHost \<and> unhex h1 < 8 \<and> [c, h1, h2] \<noteq> ''%25''
               then Some (EscapeError [c, h1, h2])
             else if mode = encodeZone \<and> [c, h1, h2] \<noteq> ''%25''
                  \<and> char_of (push_bit 4 (unhex h1) OR unhex h2) \<noteq> CHR '' ''
                  \<and> shouldEscape (char_of (push_bit 4 (unhex h1) OR unhex h2)) encodeHost
               then Some (EscapeError [c, h1, h2])
             else unescape_check mode s'
         | _ \<Rightarrow> Some (EscapeError (take 3 (c # s))))
      else if c = CHR ''+'' then unescape_check mode s
      else if (mode = encodeHost \<or> mode = encodeZone) \<and> byte c < 128 \<and> shouldEscape c encodeHost
        then Some (InvalidHostError [c])
      else unescape_check mode s)"

text \<open>The second loop of \<open>unescape\<close>, on a string that passed the first.\<close>

fun unescape_bytes :: "encoding \<Rightarrow> string \<Rightarrow> string" where
  "unescape_bytes mode [] = []"
| "unescape_bytes mode (c # s) =
     (if c = CHR ''%'' then
        (case s of
           h1 # h2 # s' \<Rightarrow> char_of (push_bit 4 (unhex h1) OR unhex h2) # unescape_bytes mode s'
         | _ \<Rightarrow> [])
      else if c = CHR ''+'' then
        (if mode = encodeQueryComponent then CHR '' '' else CHR ''+'') # unescape_bytes mode s
      else c # unescape_bytes mode s)"

definition unescape :: "string \<Rightarrow> encoding \<Rightarrow> url_err + string" where
  "unescape s mode =
     (case unescape_check mode s of
        Some e \<Rightarrow> Inl e
      | None \<Rightarrow> Inr (unescape_bytes mode s))"

definition upperhex :: string where
  "upperhex = ''0123456789ABCDEF''"

definition escape :: "string \<Rightarrow> encoding \<Rightarrow> string" where
  "escape s mode =
     concat (map (\<lambda>c.
       if shouldEscape c mode then
         (if c = CHR '' '' \<and> mode = encodeQueryComponent then ''+''
          else [CHR ''%'', upperhex ! (drop_bit 4 (byte c)), upperhex ! (byte c AND 15)])
       else [c]) s)"

definition stringContainsCTLByte :: "string \<Rightarrow> bool" where
  "stringContainsCTLByte s = list_ex (\<lambda>b. byte b < byte CHR '' '' \<or> byte b = 127) s"

text \<open>\<open>getScheme\<close>: the loop over the bytes of \<open>rawURL\<close>, with the index
  \<open>i\<close> and the bytes from \<open>i\<close> on.\<close>

fun getScheme_loop :: "string \<Rightarrow> nat \<Rightarrow> string \<Rightarrow> url_err + (string \<times> string)" where
  "getScheme_loop rawURL i [] = Inr ([], rawURL)"
| "getScheme_loop rawURL i (c # cs) =
     (if between CHR ''a'' c CHR ''z'' \<or> between CHR ''A'' c CHR ''Z''
        then getScheme_loop rawURL (Suc i) cs
      else if between CHR ''0'' c CHR ''9'' \<or> c = CHR ''+'' \<or> c = CHR ''-'' \<or> c = CHR ''.''
        then (if i = 0 then Inr ([], rawURL) else getScheme_loop rawURL (Suc i) cs)
      else if c = CHR '':''
        then (if i = 0 then Inl MissingProtocolScheme
              else Inr (take i rawURL, drop (Suc i) rawURL))
      else Inr ([], rawURL))"

definition getScheme :: "string \<Rightarrow> url_err + (string \<times> string)" where
  "getScheme rawURL = getScheme_loop rawURL 0 rawURL"

text \<open>The bytes \<open>getScheme\<close> lets into a scheme.\<close>

definition scheme_byte :: "char \<Rightarrow> bool" where
  "scheme_byte c = (between CHR ''a'' c CHR ''z'' \<or> between CHR ''A'' c CHR ''Z''
     \<or> between CHR ''0'' c CHR ''9'' \<or> c = CHR ''+'' \<or> c = CHR ''-'' \<or> c = CHR ''.'')"

definition validOptionalPort :: "string \<Rightarrow> bool" where
  "validOptionalPort port =
     (case port of
        [] \<Rightarrow> True
      | c # ds \<Rightarrow> c = CHR '':'' \<and> list_all (\<lambda>b. between CHR ''0'' b CHR ''9'') ds)"

text \<open>\<open>validUserinfo\<close> ranges over the runes of the string and accepts ASCII
  ones only, so that it accepts a string exactly when every byte is accepted.\<close>

definition validUserinfo :: "string \<Rightarrow> bool" where
  "validUserinfo s =
     list_all (\<lambda>r. between CHR ''A'' r CHR ''Z'' \<or> between CHR ''a'' r CHR ''z''
        \<or> between CHR ''0'' r CHR ''9'' \<or> r \<in> set ''-._:~!$&'()*+,;=%@'') s"

definition parseHost :: "string \<Rightarrow> url_err + string" where
  "parseHost host =
     (if HasPrefix host ''['' then
        (let i = LastIndex host '']''
         in if i < 0 then Inl MissingBracketInHost
            else if \<not> validOptionalPort (drop (nat i + 1) host)
              then Inl (InvalidPort (drop (nat i + 1) host))
            else
              (let zone = Index (take (nat i) host) ''%25''
               in if 0 \<le> zone then
                    (case unescape (take (nat zone) host) encodeHost of
                       Inl e \<Rightarrow> Inl e
                     | Inr host1 \<Rightarrow>
                        (case unescape (drop (nat zone) (take (nat i) host)) encodeZone of
                           Inl e \<Rightarrow> Inl e
                         | Inr host2 \<Rightarrow>
                            (case unescape (drop (nat i) host) encodeHost of
                               Inl e \<Rightarrow> Inl e
                             | Inr host3 \<Rightarrow> Inr (host1 @ host2 @ host3))))
                  else unescape host encodeHost))
      else
        (let i = LastIndex host '':''
         in if i \<noteq> - 1 \<and> \<not> validOptionalPort (drop (nat i) host)
              then Inl (InvalidPort (drop (nat i) host))
            else unescape host encodeHost))"

definition parseUserinfo :: "string \<Rightarrow> url_err + Userinfo" where
  "parseUserinfo userinfo =
     (if \<not> validUserinfo userinfo then Inl InvalidUserinfo
      else if \<not> Contains userinfo '':'' then
        (case unescape userinfo encodeUserPassword of
           Inl e \<Rightarrow> Inl e
         | Inr u \<Rightarrow> Inr \<lparr>username = u, password = [], passwordSet = False\<rparr>)
      else
        (case Cut userinfo '':'' of
           (name, pass, _) \<Rightarrow>
             (case unescape name encodeUserPassword of
                Inl e \<Rightarrow> Inl e
              | Inr u \<Rightarrow>
                 (case unescape pass encodeUserPassword of
                    Inl e \<Rightarrow> Inl e
                  | Inr p \<Rightarrow> Inr \<lparr>username = u, password = p, passwordSet = True\<rparr>))))"

definition parseAuthority :: "string \<Rightarrow> url_err + (Userinfo option \<times> string)" where
  "parseAuthority authority =
     (let i = LastIndex authority ''@''
      in case (if i < 0 then parseHost authority else parseHost (drop (nat i + 1) authority)) of
           Inl e \<Rightarrow> Inl e
         | Inr host \<Rightarrow>
             if i < 0 then Inr (None, host)
             else (case parseUserinfo (take (nat i) authority) of
                     Inl e \<Rightarrow> Inl e
                   | Inr user \<Rightarrow> Inr (Some user, host)))"

definition setPath :: "URL \<Rightarrow> string \<Rightarrow> url_err + URL" where
  "setPath u p =
     (case unescape p encodePath of
        Inl e \<Rightarrow> Inl e
      | Inr path \<Rightarrow>
          Inr (u\<lparr>Path := path, RawPath := (if p = escape path encodePath then [] else p)\<rparr>))"

definition setFragment :: "URL \<Rightarrow> string \<Rightarrow> url_err + URL" where
  "setFragment u f =
     (case unescape f encodeFragment of
        Inl e \<Rightarrow> Inl e
      | Inr frag \<Rightarrow>
          Inr (u\<lparr>Fragment := frag,
                  RawFragment := (if f = escape frag encodeFragment then [] else f)\<rparr>))"

text \<open>The tail of \<open>parse\<close>, from the test for an authority on: \<open>url\<close> has
  its scheme and query, \<open>rest\<close> is what is left of the text.\<close>

definition parse_authority_path :: "URL \<Rightarrow> string \<Rightarrow> bool \<Rightarrow> url_err + URL" where
  "parse_authority_path url rest viaRequest =
     (if (Scheme url \<noteq> [] \<or> \<not> viaRequest \<and> \<not> HasPrefix rest ''///'') \<and> HasPrefix rest ''//''
      then
        (let authority0 = drop 2 rest;
             i = Index authority0 ''/'';
             authority = (if 0 \<le> i then take (nat i) authority0 else authority0);
             rest' = (if 0 \<le> i then drop (nat i) authority0 else [])
         in case parseAuthority authority of
              Inl e \<Rightarrow> Inl e
            | Inr (user, host) \<Rightarrow> setPath (url\<lparr>User := user, Host := host\<rparr>) rest')
      else if Scheme url \<noteq> [] \<and> HasPrefix rest ''/''
        then setPath (url\<lparr>OmitHost := True\<rparr>) rest
      else setPath url rest)"

definition parse :: "string \<Rightarrow> bool \<Rightarrow> url_err + URL" where
  "parse rawURL viaRequest =
     (if stringContainsCTLByte rawURL then Inl InvalidControlCharacter
      else if rawURL = [] \<and> viaRequest then Inl EmptyURL
      else if rawURL = ''*'' then Inr (new_URL\<lparr>Path := ''*''\<rparr>)
      else
        (case getScheme rawURL of
           Inl e \<Rightarrow> Inl e
         | Inr (scheme, rest0) \<Rightarrow>
            (let url = new_URL\<lparr>Scheme := ToLower scheme\<rparr>;
                 force = (HasSuffix rest0 ''?'' \<and> Count rest0 CHR ''?'' = 1);
                 url = (if force then url\<lparr>ForceQuery := True\<rparr>
                        else url\<lparr>RawQuery := fst (snd (Cut rest0 ''?''))\<rparr>);
                 rest = (if force then butlast rest0 else fst (Cut rest0 ''?''))
             in if \<not> HasPrefix rest ''/'' \<and> Scheme url \<noteq> [] then Inr (url\<lparr>Opaque := rest\<rparr>)
                else if \<not> HasPrefix rest ''/'' \<and> viaRequest then Inl InvalidURIForRequest
                else if \<not> HasPrefix rest ''/'' \<and> Contains (fst (Cut rest ''/'')) '':''
                  then Inl FirstPathSegmentColon
                else parse_authority_path url rest viaRequest)))"

definition Parse :: "string \<Rightarrow> url_Error + URL" where
  "Parse rawURL =
     (case Cut rawURL ''#'' of
        (u, frag, _) \<Rightarrow>
          (case parse u False of
             Inl err \<Rightarrow> Inl (Error ''parse'' u err)
           | Inr url \<Rightarrow>
               if frag = [] then Inr url
               else (case setFragment url frag of
                       Inl err \<Rightarrow> Inl (Error ''parse'' rawURL err)
                     | Inr url' \<Rightarrow> Inr url')))"

subsection \<open>The \<open>options\<close> struct\<close>

text \<open>
  Modelled from the spec: the struct \<open>maritacaclient.Options\<close> is declared in
  package \<open>internal/maritacaclient\<close>, which is not among the source files. Its
  fields are those the options assign (\<open>opts.maritacaOptions.ChatMode\<close> and so
  on), with the types of the arguments assigned to them; they are the ten
  generation parameters of the spec.
\<close>

record maritacaclient_Options =
  Token :: string
  ChatMode :: bool
  MaxTokens :: int
  DoSample :: bool
  Temperature :: real
  TopP :: real
  RepetitionPenalty :: real
  StoppingTokens :: "string list"
  Stream :: bool
  NumTokensPerMessage :: int

text \<open>A \<open>*http.Client\<close> is a reference the options store and never follow: the
  address of the client, or \<open>None\<close> for \<open>nil\<close>. A \<open>*url.URL\<close> is the
  location the parser returned, or \<open>None\<close> for \<open>nil\<close>.\<close>

type_synonym http_Client_ptr = "nat option"

record options =
  maritacaServerURL :: "URL option"
  httpClient :: http_Client_ptr
  model :: string
  maritacaOptions :: maritacaclient_Options
  customModelTemplate :: string
  system :: string
  format :: string

text \<open>\<open>log.Fatal(err)\<close> prints the error and ends the process with
  \<open>os.Exit(1)\<close>: the caller gets nothing back.\<close>

datatype process_exit = log_Fatal url_Error

text \<open>\<open>type Option func(*options)\<close>: an option takes the struct and leaves
  it updated, or ends the process.\<close>

type_synonym Option = "options \<Rightarrow> process_exit + options"

definition WithModel :: "string \<Rightarrow> Option" where
  "WithModel m = (\<lambda>opts. Inr (opts\<lparr>model := m\<rparr>))"

definition WithFormat :: "string \<Rightarrow> Option" where
  "WithFormat f = (\<lambda>opts. Inr (opts\<lparr>format := f\<rparr>))"

definition WithSystemPrompt :: "string \<Rightarrow> Option" where
  "WithSystemPrompt p = (\<lambda>opts. Inr (opts\<lparr>system := p\<rparr>))"

definition WithCustomTemplate :: "string \<Rightarrow> Option" where
  "WithCustomTemplate t = (\<lambda>opts. Inr (opts\<lparr>customModelTemplate := t\<rparr>))"

text \<open>\<open>opts.maritacaServerURL, err = url.Parse(rawURL)\<close> assigns the field
  first (\<open>nil\<close> when the parser fails) and then tests \<open>err\<close>; after
  \<open>log.Fatal\<close> nothing of the struct is left to observe.\<close>

definition WithServerURL :: "string \<Rightarrow> Option" where
  "WithServerURL rawURL = (\<lambda>opts.
     case Parse rawURL of
       Inl err \<Rightarrow> Inl (log_Fatal err)
     | Inr u \<Rightarrow> Inr (opts\<lparr>maritacaServerURL := Some u\<rparr>))"

definition WithHTTPClient :: "http_Client_ptr \<Rightarrow> Option" where
  "WithHTTPClient client = (\<lambda>opts. Inr (opts\<lparr>httpClient := client\<rparr>))"

definition WithChatMode :: "bool \<Rightarrow> Option" where
  "WithChatMode chatMode = (\<lambda>opts.
     Inr (opts\<lparr>maritacaOptions := (maritacaOptions opts)\<lparr>ChatMode := chatMode\<rparr>\<rparr>))"

definition WithMaxTokens :: "int \<Rightarrow> Option" where
  "WithMaxTokens maxTokens = (\<lambda>opts.
     Inr (opts\<lparr>maritacaOptions := (maritacaOptions opts)\<lparr>MaxTokens := maxTokens\<rparr>\<rparr>))"

definition WithDoSample :: "bool \<Rightarrow> Option" where
  "WithDoSample doSample = (\<lambda>opts.
     Inr (opts\<lparr>maritacaOptions := (maritacaOptions opts)\<lparr>DoSample := doSample\<rparr>\<rparr>))"

definition WithTemperature :: "real \<Rightarrow> Option" where
  "WithTemperature temperature = (\<lambda>opts.
     Inr (opts\<lparr>maritacaOptions := (maritacaOptions opts)\<lparr>Temperature := temperature\<rparr>\<rparr>))"

definition WithTopP :: "real \<Rightarrow> Option" where
  "WithTopP topP = (\<lambda>opts.
     Inr (opts\<lparr>maritacaOptions := (maritacaOptions opts)\<lparr>TopP := topP\<rparr>\<rparr>))"

definition WithRepetitionPenalty :: "real \<Rightarrow> Option" where
  "WithRepetitionPenalty repetitionPenalty = (\<lambda>opts.
     Inr (opts\<lparr>maritacaOptions :=
       (maritacaOptions opts)\<lparr>RepetitionPenalty := repetitionPenalty\<rparr>\<rparr>))"

definition WithStoppingTokens :: "string list \<Rightarrow> Option" where
  "WithStoppingTokens tokens = (\<lambda>opts.
     Inr (opts\<lparr>maritacaOptions := (maritacaOptions opts)\<lparr>StoppingTokens := tokens\<rparr>\<rparr>))"

definition WithStream :: "bool \<Rightarrow> Option" where
  "WithStream stream = (\<lambda>opts.
     Inr (opts\<lparr>maritacaOptions := (maritacaOptions opts)\<lparr>Stream := stream\<rparr>\<rparr>))"

definition WithTokensPerMessage :: "int \<Rightarrow> Option" where
  "WithTokensPerMessage tokensPerMessage = (\<lambda>opts.
     Inr (opts\<lparr>maritacaOptions :=
       (maritacaOptions opts)\<lparr>NumTokensPerMessage := tokensPerMessage\<rparr>\<rparr>))"

definition WithToken :: "string \<Rightarrow> Option" where
  "WithToken token = (\<lambda>opts.
     Inr (opts\<lparr>maritacaOptions := (maritacaOptions opts)\<lparr>Token := token\<rparr>\<rparr>))"

text \<open>Two options in a row on the same struct: the second runs only when the
  first has returned.\<close>

definition and_then :: "Option \<Rightarrow> Option \<Rightarrow> Option" where
  "and_then f g = (\<lambda>opts. case f opts of Inl x \<Rightarrow> Inl x | Inr opts' \<Rightarrow> g opts')"

subsection \<open>The catalogue of options\<close>

text \<open>The sixteen exported constructors of an \<open>Option\<close>, as the calls a
  client can write, and the closure each call returns.\<close>

datatype modifier =
    CallWithModel string
  | CallWithFormat string
  | CallWithSystemPrompt string
  | CallWithCustomTemplate string
  | CallWithServerURL string
  | CallWithHTTPClient http_Client_ptr
  | CallWithChatMode bool
  | CallWithMaxTokens int
  | CallWithDoSample bool
  | CallWithTemperature real
  | CallWithTopP real
  | CallWithRepetitionPenalty real
  | CallWithStoppingTokens "string list"
  | CallWithStream bool
  | CallWithTokensPerMessage int
  | CallWithToken string

fun option_of :: "modifier \<Rightarrow> Option" where
  "option_of (CallWithModel m) = WithModel m"
| "option_of (CallWithFormat f) = WithFormat f"
| "option_of (CallWithSystemPrompt p) = WithSystemPrompt p"
| "option_of (CallWithCustomTemplate t) = WithCustomTemplate t"
| "option_of (CallWithServerURL rawURL) = WithServerURL rawURL"
| "option_of (CallWithHTTPClient client) = WithHTTPClient client"
| "option_of (CallWithChatMode chatMode) = WithChatMode chatMode"
| "option_of (CallWithMaxTokens maxTokens) = WithMaxTokens maxTokens"
| "option_of (CallWithDoSample doSample) = WithDoSample doSample"
| "option_of (CallWithTemperature temperature) = WithTemperature temperature"
| "option_of (CallWithTopP topP) = WithTopP topP"
| "option_of (CallWithRepetitionPenalty repetitionPenalty) =
     WithRepetitionPenalty repetitionPenalty"
| "option_of (CallWithStoppingTokens tokens) = WithStoppingTokens tokens"
| "option_of (CallWithStream stream) = WithStream stream"
| "option_of (CallWithTokensPerMessage tokensPerMessage) =
     WithTokensPerMessage tokensPerMessage"
| "option_of (CallWithToken token) = WithToken token"

text \<open>The sixteen fields of the struct, the nested ones included, the field
  each option is documented to set, and what it means for two structs to hold
  the same value in a field.\<close>

datatype field =
    F_maritacaServerURL
  | F_httpClient
  | F_model
  | F_customModelTemplate
  | F_system
  | F_format
  | F_Token
  | F_ChatMode
  | F_MaxTokens
  | F_DoSample
  | F_Temperature
  | F_TopP
  | F_RepetitionPenalty
  | F_StoppingTokens
  | F_Stream
  | F_NumTokensPerMessage

fun target :: "modifier \<Rightarrow> field" where
  "target (CallWithModel _) = F_model"
| "target (CallWithFormat _) = F_format"
| "target (CallWithSystemPrompt _) = F_system"
| "target (CallWithCustomTemplate _) = F_customModelTemplate"
| "target (CallWithServerURL _) = F_maritacaServerURL"
| "target (CallWithHTTPClient _) = F_httpClient"
| "target (CallWithChatMode _) = F_ChatMode"
| "target (CallWithMaxTokens _) = F_MaxTokens"
| "target (CallWithDoSample _) = F_DoSample"
| "target (CallWithTemperature _) = F_Temperature"
| "target (CallWithTopP _) = F_TopP"
| "target (CallWithRepetitionPenalty _) = F_RepetitionPenalty"
| "target (CallWithStoppingTokens _) = F_StoppingTokens"
| "target (CallWithStream _) = F_Stream"
| "target (CallWithTokensPerMessage _) = F_NumTokensPerMessage"
| "target (CallWithToken _) = F_Token"

fun same_field :: "field \<Rightarrow> options \<Rightarrow> options \<Rightarrow> bool" where
  "same_field F_maritacaServerURL a b = (maritacaServerURL a = maritacaServerURL b)"
| "same_field F_httpClient a b = (httpClient a = httpClient b)"
| "same_field F_model a b = (model a = model b)"
| "same_field F_customModelTemplate a b = (customModelTemplate a = customModelTemplate b)"
| "same_field F_system a b = (system a = system b)"
| "same_field F_format a b = (format a = format b)"
| "same_field F_Token a b = (Token (maritacaOptions a) = Token (maritacaOptions b))"
| "same_field F_ChatMode a b = (ChatMode (maritacaOptions a) = ChatMode (maritacaOptions b))"
| "same_field F_MaxTokens a b = (MaxTokens (maritacaOptions a) = MaxTokens (maritacaOptions b))"
| "same_field F_DoSample a b = (DoSample (maritacaOptions a) = DoSample (maritacaOptions b))"
| "same_field F_Temperature a b =
     (Temperature (maritacaOptions a) = Temperature (maritacaOptions b))"
| "same_field F_TopP a b = (TopP (maritacaOptions a) = TopP (maritacaOptions b))"
| "same_field F_RepetitionPenalty a b =
     (RepetitionPenalty (maritacaOptions a) = RepetitionPenalty (maritacaOptions b))"
| "same_field F_StoppingTokens a b =
     (StoppingTokens (maritacaOptions a) = StoppingTokens (maritacaOptions b))"
| "same_field F_Stream a b = (Stream (maritacaOptions a) = Stream (maritacaOptions b))"
| "same_field F_NumTokensPerMessage a b =
     (NumTokensPerMessage (maritacaOptions a) = NumTokensPerMessage (maritacaOptions b))"

subsection \<open>Building the options\<close>

text \<open>
  Modelled from the spec: the function that creates the struct and runs the
  options over it is not in \<open>options.go\<close> and not among the source files. The
  spec describes it: "given an ordered sequence of modifiers, initialize a
  Configuration with documented defaults, then apply each modifier strictly in
  the order supplied, each operating on the same shared value"; a modifier that
  takes the fatal path ends the process and the later ones do not run. The
  documented defaults are chatMode = true, doSample = true, temperature = 0.7,
  topP = 0.95, repetitionPenalty = 1, stream = false and tokensPerMessage = 4.
  The spec documents no default for the other fields; they start at the zero
  value of their Go type (empty string, 0, \<open>nil\<close>).
\<close>

definition defaultOptions :: options where
  "defaultOptions =
     \<lparr>maritacaServerURL = None, httpClient = None, model = [],
      maritacaOptions =
        \<lparr>Token = [], ChatMode = True, MaxTokens = 0, DoSample = True, Temperature = 0.7,
         TopP = 0.95, RepetitionPenalty = 1, StoppingTokens = [], Stream = False,
         NumTokensPerMessage = 4\<rparr>,
      customModelTemplate = [], system = [], format = []\<rparr>"

fun applyOptions :: "options \<Rightarrow> Option list \<Rightarrow> process_exit + options" where
  "applyOptions cfg [] = Inr cfg"
| "applyOptions cfg (opt # opts) =
     (case opt cfg of Inl x \<Rightarrow> Inl x | Inr cfg' \<Rightarrow> applyOptions cfg' opts)"

definition build :: "Option list \<Rightarrow> process_exit + options" where
  "build opts = applyOptions defaultOptions opts"

subsection \<open>What "the last modifier that touches a field" means\<close>

text \<open>For each field, the value a call writes into it, if it writes the field
  at all. These follow the table of modifiers of the spec, one effect per
  modifier; the endpoint modifier writes what the parser returned (\<open>nil\<close> when
  it failed).\<close>

fun maritacaServerURL_set_by :: "modifier \<Rightarrow> URL option option" where
  "maritacaServerURL_set_by (CallWithServerURL rawURL) =
     (case Parse rawURL of Inl _ \<Rightarrow> Some None | Inr u \<Rightarrow> Some (Some u))"
| "maritacaServerURL_set_by _ = None"

fun httpClient_set_by :: "modifier \<Rightarrow> http_Client_ptr option" where
  "httpClient_set_by (CallWithHTTPClient v) = Some v"
| "httpClient_set_by _ = None"

fun model_set_by :: "modifier \<Rightarrow> string option" where
  "model_set_by (CallWithModel v) = Some v"
| "model_set_by _ = None"

fun customModelTemplate_set_by :: "modifier \<Rightarrow> string option" where
  "customModelTemplate_set_by (CallWithCustomTemplate v) = Some v"
| "customModelTemplate_set_by _ = None"

fun system_set_by :: "modifier \<Rightarrow> string option" where
  "system_set_by (CallWithSystemPrompt v) = Some v"
| "system_set_by _ = None"

fun format_set_by :: "modifier \<Rightarrow> string option" where
  "format_set_by (CallWithFormat v) = Some v"
| "format_set_by _ = None"

fun Token_set_by :: "modifier \<Rightarrow> string option" where
  "Token_set_by (CallWithToken v) = Some v"
| "Token_set_by _ = None"

fun ChatMode_set_by :: "modifier \<Rightarrow> bool option" where
  "ChatMode_set_by (CallWithChatMode v) = Some v"
| "ChatMode_set_by _ = None"

fun MaxTokens_set_by :: "modifier \<Rightarrow> int option" where
  "MaxTokens_set_by (CallWithMaxTokens v) = Some v"
| "MaxTokens_set_by _ = None"

fun DoSample_set_by :: "modifier \<Rightarrow> bool option" where
  "DoSample_set_by (CallWithDoSample v) = Some v"
| "DoSample_set_by _ = None"

fun Temperature_set_by :: "modifier \<Rightarrow> real option" where
  "Temperature_set_by (CallWithTemperature v) = Some v"
| "Temperature_set_by _ = None"

fun TopP_set_by :: "modifier \<Rightarrow> real option" where
  "TopP_set_by (CallWithTopP v) = Some v"
| "TopP_set_by _ = None"

fun RepetitionPenalty_set_by :: "modifier \<Rightarrow> real option" where
  "RepetitionPenalty_set_by (CallWithRepetitionPenalty v) = Some v"
| "RepetitionPenalty_set_by _ = None"

fun StoppingTokens_set_by :: "modifier \<Rightarrow> string list option" where
  "StoppingTokens_set_by (CallWithStoppingTokens v) = Some v"
| "StoppingTokens_set_by _ = None"

fun Stream_set_by :: "modifier \<Rightarrow> bool option" where
  "Stream_set_by (CallWithStream v) = Some v"
| "Stream_set_by _ = None"

fun NumTokensPerMessage_set_by :: "modifier \<Rightarrow> int option" where
  "NumTokensPerMessage_set_by (CallWithTokensPerMessage v) = Some v"
| "NumTokensPerMessage_set_by _ = None"

text \<open>The last call of a sequence that writes the field selected by \<open>sel\<close>,
  and the value the field is to hold after the sequence: the value written by
  that call, or \<open>dflt\<close> when no call writes the field.\<close>

definition last_touching :: "(modifier \<Rightarrow> 'a option) \<Rightarrow> modifier list \<Rightarrow> modifier option" where
  "last_touching sel ms = List.find (\<lambda>m. sel m \<noteq> None) (rev ms)"

definition final_value :: "'a \<Rightarrow> (modifier \<Rightarrow> 'a option) \<Rightarrow> modifier list \<Rightarrow> 'a" where
  "final_value dflt sel ms =
     (case last_touching sel ms of
        None \<Rightarrow> dflt
      | Some m \<Rightarrow> (case sel m of None \<Rightarrow> dflt | Some v \<Rightarrow> v))"

text \<open>
  The spec's words "syntactically valid URL", as far as the bytes go: by the
  URI grammar (RFC 3986) a URL is made of unreserved bytes (letters, digits,
  \<open>-._~\<close>), reserved bytes (\<open>:/?#[]@\<close> and \<open>!$&'()*+,;=\<close>) and \<open>%\<close>
  of a percent-encoding. A string with any other byte, a space for one, is not
  a syntactically valid URL.
\<close>

definition URI_byte :: "char \<Rightarrow> bool" where
  "URI_byte c = (between CHR ''a'' c CHR ''z'' \<or> between CHR ''A'' c CHR ''Z''
     \<or> between CHR ''0'' c CHR ''9'' \<or> c \<in> set ''-._~:/?#[]@!$&'()*+,;=%'')"

text \<open>A call that ends the process: the endpoint modifier on a string the
  parser rejects.\<close>

fun aborts :: "modifier \<Rightarrow> bool" where
  "aborts (CallWithServerURL rawURL) = isl (Parse rawURL)"
| "aborts _ = False"

section \<open>Properties\<close>

subsection \<open>The parser\<close>

text \<open>A scheme that \<open>getScheme\<close> returns holds ASCII letters, digits, \<open>+\<close>,
  \<open>-\<close> and \<open>.\<close> only, so that \<open>ToLower\<close> above is all of
  \<open>strings.ToLower\<close> the parser needs.\<close>

lemma getScheme_loop_bytes:
  "getScheme_loop rawURL i cs = Inr (scheme, rest) \<Longrightarrow> rawURL = pre @ cs \<Longrightarrow>
     length pre = i \<Longrightarrow> list_all scheme_byte pre \<Longrightarrow> list_all scheme_byte scheme"
proof (induction cs arbitrary: i pre)
  case Nil
  then show ?case by simp
next
  case (Cons c cs)
  have step: "getScheme_loop rawURL (Suc i) cs = Inr (scheme, rest) \<Longrightarrow> scheme_byte c \<Longrightarrow>
      list_all scheme_byte scheme"
    using Cons.IH [of "Suc i" "pre @ [c]"] Cons.prems by simp
  have "scheme = [] \<or> scheme = pre \<or>
      (scheme_byte c \<and> getScheme_loop rawURL (Suc i) cs = Inr (scheme, rest))"
    using Cons.prems(1,2,3) by (auto simp: scheme_byte_def split: if_splits)
  with step Cons.prems(4) show ?case
    by auto
qed

lemma getScheme_bytes:
  "getScheme rawURL = Inr (scheme, rest) \<Longrightarrow> list_all scheme_byte scheme"
  unfolding getScheme_def using getScheme_loop_bytes [of rawURL 0 rawURL scheme rest "[]"] by simp

text \<open>The parser on the strings the properties name.\<close>

lemma Parse_localhost:
  "Parse ''http://localhost:8080'' =
     Inr \<lparr>Scheme = ''http'', Opaque = [], User = None, Host = ''localhost:8080'', Path = [],
          RawPath = [], OmitHost = False, ForceQuery = False, RawQuery = [], Fragment = [],
          RawFragment = []\<rparr>"
  by code_simp

lemma Parse_control_character:
  "Parse ''not a url\<newline>'' = Inl (Error ''parse'' ''not a url\<newline>'' InvalidControlCharacter)"
  by code_simp

lemma Parse_empty:
  "Parse [] =
     Inr \<lparr>Scheme = [], Opaque = [], User = None, Host = [], Path = [], RawPath = [],
          OmitHost = False, ForceQuery = False, RawQuery = [], Fragment = [], RawFragment = []\<rparr>"
  by code_simp

lemma Parse_not_a_url:
  "Parse ''not a url'' =
     Inr \<lparr>Scheme = [], Opaque = [], User = None, Host = [], Path = ''not a url'',
          RawPath = ''not a url'', OmitHost = False, ForceQuery = False, RawQuery = [],
          Fragment = [], RawFragment = []\<rparr>"
  by code_simp

lemma Parse_maritaca:
  "Parse ''https://chat.maritaca.ai/api'' =
     Inr \<lparr>Scheme = ''https'', Opaque = [], User = None, Host = ''chat.maritaca.ai'',
          Path = ''/api'', RawPath = [], OmitHost = False, ForceQuery = False, RawQuery = [],
          Fragment = [], RawFragment = []\<rparr>"
  by code_simp

lemma Parse_missing_scheme:
  "Parse '':8080'' = Inl (Error ''parse'' '':8080'' MissingProtocolScheme)"
  by code_simp

lemma Parse_bad_port:
  "Parse ''http://localhost:port'' =
     Inl (Error ''parse'' ''http://localhost:port'' (InvalidPort '':port''))"
  by code_simp

subsection \<open>Single options\<close>

lemmas With_defs = WithModel_def WithFormat_def WithSystemPrompt_def WithCustomTemplate_def
  WithServerURL_def WithHTTPClient_def WithChatMode_def WithMaxTokens_def WithDoSample_def
  WithTemperature_def WithTopP_def WithRepetitionPenalty_def WithStoppingTokens_def
  WithStream_def WithTokensPerMessage_def WithToken_def

text \<open>The sixteen fields are the whole struct: two structs that agree on each
  of them are equal.\<close>

lemma same_field_all: "(\<forall>f. same_field f a b) \<longleftrightarrow> a = b"
proof
  assume h: "\<forall>f. same_field f a b"
  have "maritacaOptions a = maritacaOptions b"
    using h[rule_format, of F_Token] h[rule_format, of F_ChatMode] h[rule_format, of F_MaxTokens]
      h[rule_format, of F_DoSample] h[rule_format, of F_Temperature] h[rule_format, of F_TopP]
      h[rule_format, of F_RepetitionPenalty] h[rule_format, of F_StoppingTokens]
      h[rule_format, of F_Stream] h[rule_format, of F_NumTokensPerMessage]
    by (simp add: maritacaclient_Options.equality)
  then show "a = b"
    using h[rule_format, of F_maritacaServerURL] h[rule_format, of F_httpClient]
      h[rule_format, of F_model] h[rule_format, of F_customModelTemplate]
      h[rule_format, of F_system] h[rule_format, of F_format]
    by (simp add: options.equality)
next
  assume eq: "a = b"
  show "\<forall>f. same_field f a b"
  proof
    fix f
    show "same_field f a b" using eq by (cases f) simp_all
  qed
qed

lemma option_of_frame:
  "option_of m opts = Inr opts' \<Longrightarrow> f \<noteq> target m \<Longrightarrow> same_field f opts opts'"
  by (cases m; cases f) (auto simp: With_defs split: sum.splits)

lemma option_of_fatal:
  "option_of m opts = Inl x \<Longrightarrow>
     \<exists>rawURL err. m = CallWithServerURL rawURL \<and> Parse rawURL = Inl err \<and> x = log_Fatal err"
  by (cases m) (auto simp: With_defs split: sum.splits)

lemma option_of_returns:
  "target m \<noteq> F_maritacaServerURL \<Longrightarrow> \<exists>opts'. option_of m opts = Inr opts'"
  by (cases m) (auto simp: With_defs)

lemma option_of_twice:
  "target m \<noteq> F_maritacaServerURL \<Longrightarrow> option_of m opts = Inr opts' \<Longrightarrow>
     option_of m opts' = Inr opts'"
  by (cases m) (auto simp: With_defs)

text \<open>
  C5: every option of the catalogue adjusts one concern. When the option
  returns, every field of the struct other than its target field, the nested
  generation parameters included, holds the value it held before; and an option
  does not return only when it is the endpoint option on a string the parser
  rejects, which is the fatal path.
\<close>

theorem option_changes_only_its_target:
  "(option_of m opts = Inr opts' \<longrightarrow> f \<noteq> target m \<longrightarrow> same_field f opts opts') \<and>
   (option_of m opts = Inl x \<longrightarrow>
      (\<exists>rawURL err. m = CallWithServerURL rawURL \<and> Parse rawURL = Inl err \<and> x = log_Fatal err))"
  using option_of_frame option_of_fatal by blast

theorem option_changes_only_its_target_witness:
  "option_of (CallWithMaxTokens 256) defaultOptions =
     Inr (defaultOptions\<lparr>maritacaOptions := (maritacaOptions defaultOptions)\<lparr>MaxTokens := 256\<rparr>\<rparr>) \<and>
   F_Temperature \<noteq> target (CallWithMaxTokens 256) \<and>
   same_field F_Temperature defaultOptions
     (defaultOptions\<lparr>maritacaOptions := (maritacaOptions defaultOptions)\<lparr>MaxTokens := 256\<rparr>\<rparr>) \<and>
   option_of (CallWithServerURL '':8080'') defaultOptions =
     Inl (log_Fatal (Error ''parse'' '':8080'' MissingProtocolScheme)) \<and>
   (\<exists>rawURL err. CallWithServerURL '':8080'' = CallWithServerURL rawURL \<and>
      Parse rawURL = Inl err \<and>
      log_Fatal (Error ''parse'' '':8080'' MissingProtocolScheme) = log_Fatal err)"
proof -
  let ?b = "defaultOptions\<lparr>maritacaOptions := (maritacaOptions defaultOptions)\<lparr>MaxTokens := 256\<rparr>\<rparr>"
  let ?x = "log_Fatal (Error ''parse'' '':8080'' MissingProtocolScheme)"
  have h1: "option_of (CallWithMaxTokens 256) defaultOptions = Inr ?b"
    by (simp add: WithMaxTokens_def)
  have h2: "F_Temperature \<noteq> target (CallWithMaxTokens 256)"
    by simp
  have h3: "option_of (CallWithServerURL '':8080'') defaultOptions = Inl ?x"
    by (simp add: WithServerURL_def Parse_missing_scheme)
  show ?thesis
    using h1 h2 h3
      option_changes_only_its_target [of "CallWithMaxTokens 256" defaultOptions ?b F_Temperature]
      option_changes_only_its_target [of "CallWithServerURL '':8080''" defaultOptions _ _ ?x]
    by blast
qed

text \<open>
  C6: the stopping-tokens option replaces the list. On every struct, the option
  with the empty sequence followed by the option with a sequence \<open>tokens\<close>
  (non-empty or not) leaves the struct holding exactly \<open>tokens\<close> as its stop
  tokens, and nothing else changed.
\<close>

theorem WithStoppingTokens_replaces:
  "and_then (WithStoppingTokens []) (WithStoppingTokens tokens) opts =
     Inr (opts\<lparr>maritacaOptions := (maritacaOptions opts)\<lparr>StoppingTokens := tokens\<rparr>\<rparr>) \<and>
   StoppingTokens (maritacaOptions
     (opts\<lparr>maritacaOptions := (maritacaOptions opts)\<lparr>StoppingTokens := tokens\<rparr>\<rparr>)) = tokens"
  by (simp add: and_then_def WithStoppingTokens_def)

text \<open>
  C10: every option other than the endpoint option is idempotent. It returns on
  every struct, and on the struct it returned it returns that same struct
  again: twice in a row is once.
\<close>

theorem option_idempotent:
  "target m \<noteq> F_maritacaServerURL \<Longrightarrow>
     (\<exists>opts'. option_of m opts = Inr opts' \<and> option_of m opts' = Inr opts') \<and>
     and_then (option_of m) (option_of m) opts = option_of m opts"
proof -
  assume t: "target m \<noteq> F_maritacaServerURL"
  then obtain opts' where r: "option_of m opts = Inr opts'"
    using option_of_returns by blast
  with t have "option_of m opts' = Inr opts'"
    by (rule option_of_twice)
  with r show ?thesis
    by (auto simp: and_then_def)
qed

theorem option_idempotent_witness:
  "target (CallWithTemperature 0.2) \<noteq> F_maritacaServerURL \<and>
   and_then (option_of (CallWithTemperature 0.2)) (option_of (CallWithTemperature 0.2))
     defaultOptions = option_of (CallWithTemperature 0.2) defaultOptions \<and>
   option_of (CallWithTemperature 0.2) defaultOptions =
     Inr (defaultOptions\<lparr>maritacaOptions := (maritacaOptions defaultOptions)\<lparr>Temperature := 0.2\<rparr>\<rparr>)"
proof -
  have h: "target (CallWithTemperature 0.2) \<noteq> F_maritacaServerURL"
    by simp
  show ?thesis
    using h option_idempotent [OF h, of defaultOptions]
    by (simp add: WithTemperature_def)
qed

subsection \<open>The endpoint option\<close>

text \<open>
  C2, as amended: on every string that \<open>url.Parse\<close> rejects, the endpoint
  option stores no location and hands no error back: it ends the process
  through \<open>log.Fatal\<close> with the parser's error. The string "not a url"
  followed by a newline, a control character, is such a string. The option has
  no test of its own, so a string that is no syntactically valid URL and that
  the parser accepts does not take this path (see the counterexample below).
\<close>

theorem WithServerURL_invalid_is_fatal:
  "(Parse rawURL = Inl err \<longrightarrow> WithServerURL rawURL opts = Inl (log_Fatal err)) \<and>
   WithServerURL ''not a url\<newline>'' opts =
     Inl (log_Fatal (Error ''parse'' ''not a url\<newline>'' InvalidControlCharacter))"
  by (simp add: WithServerURL_def Parse_control_character)

theorem WithServerURL_invalid_is_fatal_witness:
  "Parse ''http://localhost:port'' =
     Inl (Error ''parse'' ''http://localhost:port'' (InvalidPort '':port'')) \<and>
   WithServerURL ''http://localhost:port'' defaultOptions =
     Inl (log_Fatal (Error ''parse'' ''http://localhost:port'' (InvalidPort '':port'')))"
  using WithServerURL_invalid_is_fatal [of "''http://localhost:port''"
      "Error ''parse'' ''http://localhost:port'' (InvalidPort '':port'')" defaultOptions]
    Parse_bad_port
  by simp

text \<open>
  C2 as first stated, for every string that is not a syntactically valid URL,
  fails: "not a url" holds spaces, which no URL may hold, and the endpoint
  option on it does not end the process but returns and stores the relative
  path the parser made of it.
\<close>

theorem WithServerURL_invalid_is_fatal_counterexample:
  "\<not> list_all URI_byte ''not a url'' \<and>
   WithServerURL ''not a url'' defaultOptions =
     Inr (defaultOptions\<lparr>maritacaServerURL :=
       Some \<lparr>Scheme = [], Opaque = [], User = None, Host = [], Path = ''not a url'',
             RawPath = ''not a url'', OmitHost = False, ForceQuery = False, RawQuery = [],
             Fragment = [], RawFragment = []\<rparr>\<rparr>)"
proof -
  have "\<not> list_all URI_byte ''not a url''"
    by code_simp
  moreover have "WithServerURL ''not a url'' defaultOptions =
     Inr (defaultOptions\<lparr>maritacaServerURL :=
       Some \<lparr>Scheme = [], Opaque = [], User = None, Host = [], Path = ''not a url'',
             RawPath = ''not a url'', OmitHost = False, ForceQuery = False, RawQuery = [],
             Fragment = [], RawFragment = []\<rparr>\<rparr>)"
    by (simp add: WithServerURL_def Parse_not_a_url)
  ultimately show ?thesis
    by blast
qed

text \<open>
  C8: the endpoint option with "http://localhost:8080" does not take the fatal
  path: it returns, and the location it stores has scheme "http" and host
  "localhost:8080".
\<close>

theorem WithServerURL_localhost:
  "WithServerURL ''http://localhost:8080'' opts =
     Inr (opts\<lparr>maritacaServerURL :=
       Some \<lparr>Scheme = ''http'', Opaque = [], User = None, Host = ''localhost:8080'', Path = [],
             RawPath = [], OmitHost = False, ForceQuery = False, RawQuery = [], Fragment = [],
             RawFragment = []\<rparr>\<rparr>)"
  by (simp add: WithServerURL_def Parse_localhost)

text \<open>
  C9: the endpoint option takes the fatal path exactly when the parser returns
  an error. On every string the parser accepts it returns and overwrites the
  stored endpoint with the parser's result, whatever the string looks like: the
  empty string and "not a url" (no control character) are accepted, the first
  as the empty location and the second as a relative path.
\<close>

theorem WithServerURL_fatal_iff_parse_error:
  "(isl (WithServerURL rawURL opts) \<longleftrightarrow> isl (Parse rawURL)) \<and>
   (Parse rawURL = Inr u \<longrightarrow>
      WithServerURL rawURL opts = Inr (opts\<lparr>maritacaServerURL := Some u\<rparr>)) \<and>
   WithServerURL [] opts = Inr (opts\<lparr>maritacaServerURL := Some new_URL\<rparr>) \<and>
   WithServerURL ''not a url'' opts =
     Inr (opts\<lparr>maritacaServerURL :=
       Some (new_URL\<lparr>Path := ''not a url'', RawPath := ''not a url''\<rparr>)\<rparr>)"
  by (simp add: WithServerURL_def Parse_empty Parse_not_a_url new_URL_def split: sum.splits)

theorem WithServerURL_fatal_iff_parse_error_witness:
  "Parse ''https://chat.maritaca.ai/api'' =
     Inr \<lparr>Scheme = ''https'', Opaque = [], User = None, Host = ''chat.maritaca.ai'',
          Path = ''/api'', RawPath = [], OmitHost = False, ForceQuery = False, RawQuery = [],
          Fragment = [], RawFragment = []\<rparr> \<and>
   WithServerURL ''https://chat.maritaca.ai/api'' defaultOptions =
     Inr (defaultOptions\<lparr>maritacaServerURL :=
       Some \<lparr>Scheme = ''https'', Opaque = [], User = None, Host = ''chat.maritaca.ai'',
          Path = ''/api'', RawPath = [], OmitHost = False, ForceQuery = False, RawQuery = [],
          Fragment = [], RawFragment = []\<rparr>\<rparr>) \<and>
   \<not> isl (WithServerURL ''https://chat.maritaca.ai/api'' defaultOptions)"
  using WithServerURL_fatal_iff_parse_error [of "''https://chat.maritaca.ai/api''" defaultOptions
      "\<lparr>Scheme = ''https'', Opaque = [], User = None, Host = ''chat.maritaca.ai'',
          Path = ''/api'', RawPath = [], OmitHost = False, ForceQuery = False, RawQuery = [],
          Fragment = [], RawFragment = []\<rparr>"]
    Parse_maritaca
  by simp

subsection \<open>Building the options from a sequence of calls\<close>

lemma final_value_Nil: "final_value d sel [] = d"
  by (simp add: final_value_def last_touching_def)

lemma final_value_snoc:
  "final_value d sel (ms @ [m]) = (case sel m of None \<Rightarrow> final_value d sel ms | Some v \<Rightarrow> v)"
  by (auto simp: final_value_def last_touching_def split: option.splits)

lemma applyOptions_append:
  "applyOptions a (xs @ ys) =
     (case applyOptions a xs of Inl x \<Rightarrow> Inl x | Inr b \<Rightarrow> applyOptions b ys)"
  by (induction xs arbitrary: a) (auto split: sum.splits)

text \<open>Two options in a row are the build loop over a list of two.\<close>

lemma applyOptions_two: "applyOptions cfg [f, g] = and_then f g cfg"
  by (simp add: and_then_def split: sum.splits)

lemma build_snoc:
  "build (opts @ [opt]) = (case build opts of Inl x \<Rightarrow> Inl x | Inr b \<Rightarrow> opt b)"
  by (simp add: build_def applyOptions_append split: sum.splits)

text \<open>A field read by \<open>get\<close> follows \<open>sel\<close> when every option that returns
  leaves in the field what \<open>sel\<close> says it writes, and the old value when
  \<open>sel\<close> says it writes nothing. Then, after the whole sequence, the field holds
  the value of the last call that writes it.\<close>

lemma build_field:
  assumes step: "\<And>m a b. option_of m a = Inr b \<Longrightarrow>
                   get b = (case sel m of None \<Rightarrow> get a | Some v \<Rightarrow> v)"
  shows "build (map option_of ms) = Inr c \<Longrightarrow> get c = final_value (get defaultOptions) sel ms"
proof (induction ms arbitrary: c rule: rev_induct)
  case Nil
  then show ?case
    by (auto simp: build_def final_value_Nil)
next
  case (snoc m ms)
  from snoc.prems obtain b where b: "build (map option_of ms) = Inr b" and c: "option_of m b = Inr c"
    by (auto simp: build_snoc split: sum.splits)
  from snoc.IH [OF b] step [OF c] show ?case
    by (simp add: final_value_snoc split: option.splits)
qed

lemma build_maritacaServerURL:
  "build (map option_of ms) = Inr c \<Longrightarrow>
     maritacaServerURL c = final_value None maritacaServerURL_set_by ms"
proof -
  have "\<And>m a b. option_of m a = Inr b \<Longrightarrow>
      maritacaServerURL b =
        (case maritacaServerURL_set_by m of None \<Rightarrow> maritacaServerURL a | Some v \<Rightarrow> v)"
    subgoal for m a b
      by (cases m) (auto simp: With_defs split: sum.splits)
    done
  from build_field [where get = maritacaServerURL, OF this]
  show "build (map option_of ms) = Inr c \<Longrightarrow> ?thesis"
    by (simp add: defaultOptions_def)
qed

lemma build_httpClient:
  "build (map option_of ms) = Inr c \<Longrightarrow>
     httpClient c = final_value None httpClient_set_by ms"
proof -
  have "\<And>m a b. option_of m a = Inr b \<Longrightarrow>
      httpClient b = (case httpClient_set_by m of None \<Rightarrow> httpClient a | Some v \<Rightarrow> v)"
    subgoal for m a b
      by (cases m) (auto simp: With_defs split: sum.splits)
    done
  from build_field [where get = "httpClient", OF this]
  show "build (map option_of ms) = Inr c \<Longrightarrow> ?thesis"
    by (simp add: defaultOptions_def)
qed

lemma build_model:
  "build (map option_of ms) = Inr c \<Longrightarrow>
     model c = final_value [] model_set_by ms"
proof -
  have "\<And>m a b. option_of m a = Inr b \<Longrightarrow>
      model b = (case model_set_by m of None \<Rightarrow> model a | Some v \<Rightarrow> v)"
    subgoal for m a b
      by (cases m) (auto simp: With_defs split: sum.splits)
    done
  from build_field [where get = "model", OF this]
  show "build (map option_of ms) = Inr c \<Longrightarrow> ?thesis"
    by (simp add: defaultOptions_def)
qed

lemma build_customModelTemplate:
  "build (map option_of ms) = Inr c \<Longrightarrow>
     customModelTemplate c = final_value [] customModelTemplate_set_by ms"
proof -
  have "\<And>m a b. option_of m a = Inr b \<Longrightarrow>
      customModelTemplate b = (case customModelTemplate_set_by m of None \<Rightarrow> customModelTemplate a | Some v \<Rightarrow> v)"
    subgoal for m a b
      by (cases m) (auto simp: With_defs split: sum.splits)
    done
  from build_field [where get = "customModelTemplate", OF this]
  show "build (map option_of ms) = Inr c \<Longrightarrow> ?thesis"
    by (simp add: defaultOptions_def)
qed

lemma build_system:
  "build (map option_of ms) = Inr c \<Longrightarrow>
     system c = final_value [] system_set_by ms"
proof -
  have "\<And>m a b. option_of m a = Inr b \<Longrightarrow>
      system b = (case system_set_by m of None \<Rightarrow> system a | Some v \<Rightarrow> v)"
    subgoal for m a b
      by (cases m) (auto simp: With_defs split: sum.splits)
    done
  from build_field [where get = "system", OF this]
  show "build (map option_of ms) = Inr c \<Longrightarrow> ?thesis"
    by (simp add: defaultOptions_def)
qed

lemma build_format:
  "build (map option_of ms) = Inr c \<Longrightarrow>
     format c = final_value [] format_set_by ms"
proof -
  have "\<And>m a b. option_of m a = Inr b \<Longrightarrow>
      format b = (case format_set_by m of None \<Rightarrow> format a | Some v \<Rightarrow> v)"
    subgoal for m a b
      by (cases m) (auto simp: With_defs split: sum.splits)
    done
  from build_field [where get = "format", OF this]
  show "build (map option_of ms) = Inr c \<Longrightarrow> ?thesis"
    by (simp add: defaultOptions_def)
qed

lemma build_Token:
  "build (map option_of ms) = Inr c \<Longrightarrow>
     Token (maritacaOptions c) = final_value [] Token_set_by ms"
proof -
  have "\<And>m a b. option_of m a = Inr b \<Longrightarrow>
      Token (maritacaOptions b) = (case Token_set_by m of None \<Rightarrow> Token (maritacaOptions a) | Some v \<Rightarrow> v)"
    subgoal for m a b
      by (cases m) (auto simp: With_defs split: sum.splits)
    done
  from build_field [where get = "\<lambda>x. Token (maritacaOptions x)", OF this]
  show "build (map option_of ms) = Inr c \<Longrightarrow> ?thesis"
    by (simp add: defaultOptions_def)
qed

lemma build_ChatMode:
  "build (map option_of ms) = Inr c \<Longrightarrow>
     ChatMode (maritacaOptions c) = final_value True ChatMode_set_by ms"
proof -
  have "\<And>m a b. option_of m a = Inr b \<Longrightarrow>
      ChatMode (maritacaOptions b) = (case ChatMode_set_by m of None \<Rightarrow> ChatMode (maritacaOptions a) | Some v \<Rightarrow> v)"
    subgoal for m a b
      by (cases m) (auto simp: With_defs split: sum.splits)
    done
  from build_field [where get = "\<lambda>x. ChatMode (maritacaOptions x)", OF this]
  show "build (map option_of ms) = Inr c \<Longrightarrow> ?thesis"
    by (simp add: defaultOptions_def)
qed

lemma build_MaxTokens:
  "build (map option_of ms) = Inr c \<Longrightarrow>
     MaxTokens (maritacaOptions c) = final_value 0 MaxTokens_set_by ms"
proof -
  have "\<And>m a b. option_of m a = Inr b \<Longrightarrow>
      MaxTokens (maritacaOptions b) = (case MaxTokens_set_by m of None \<Rightarrow> MaxTokens (maritacaOptions a) | Some v \<Rightarrow> v)"
    subgoal for m a b
      by (cases m) (auto simp: With_defs split: sum.splits)
    done
  from build_field [where get = "\<lambda>x. MaxTokens (maritacaOptions x)", OF this]
  show "build (map option_of ms) = Inr c \<Longrightarrow> ?thesis"
    by (simp add: defaultOptions_def)
qed

lemma build_DoSample:
  "build (map option_of ms) = Inr c \<Longrightarrow>
     DoSample (maritacaOptions c) = final_value True DoSample_set_by ms"
proof -
  have "\<And>m a b. option_of m a = Inr b \<Longrightarrow>
      DoSample (maritacaOptions b) = (case DoSample_set_by m of None \<Rightarrow> DoSample (maritacaOptions a) | Some v \<Rightarrow> v)"
    subgoal for m a b
      by (cases m) (auto simp: With_defs split: sum.splits)
    done
  from build_field [where get = "\<lambda>x. DoSample (maritacaOptions x)", OF this]
  show "build (map option_of ms) = Inr c \<Longrightarrow> ?thesis"
    by (simp add: defaultOptions_def)
qed

lemma build_Temperature:
  "build (map option_of ms) = Inr c \<Longrightarrow>
     Temperature (maritacaOptions c) = final_value 0.7 Temperature_set_by ms"
proof -
  have "\<And>m a b. option_of m a = Inr b \<Longrightarrow>
      Temperature (maritacaOptions b) = (case Temperature_set_by m of None \<Rightarrow> Temperature (maritacaOptions a) | Some v \<Rightarrow> v)"
    subgoal for m a b
      by (cases m) (auto simp: With_defs split: sum.splits)
    done
  from build_field [where get = "\<lambda>x. Temperature (maritacaOptions x)", OF this]
  show "build (map option_of ms) = Inr c \<Longrightarrow> ?thesis"
    by (simp add: defaultOptions_def)
qed

lemma build_TopP:
  "build (map option_of ms) = Inr c \<Longrightarrow>
     TopP (maritacaOptions c) = final_value 0.95 TopP_set_by ms"
proof -
  have "\<And>m a b. option_of m a = Inr b \<Longrightarrow>
      TopP (maritacaOptions b) = (case TopP_set_by m of None \<Rightarrow> TopP (maritacaOptions a) | Some v \<Rightarrow> v)"
    subgoal for m a b
      by (cases m) (auto simp: With_defs split: sum.splits)
    done
  from build_field [where get = "\<lambda>x. TopP (maritacaOptions x)", OF this]
  show "build (map option_of ms) = Inr c \<Longrightarrow> ?thesis"
    by (simp add: defaultOptions_def)
qed

lemma build_RepetitionPenalty:
  "build (map option_of ms) = Inr c \<Longrightarrow>
     RepetitionPenalty (maritacaOptions c) = final_value 1 RepetitionPenalty_set_by ms"
proof -
  have "\<And>m a b. option_of m a = Inr b \<Longrightarrow>
      RepetitionPenalty (maritacaOptions b) = (case RepetitionPenalty_set_by m of None \<Rightarrow> RepetitionPenalty (maritacaOptions a) | Some v \<Rightarrow> v)"
    subgoal for m a b
      by (cases m) (auto simp: With_defs split: sum.splits)
    done
  from build_field [where get = "\<lambda>x. RepetitionPenalty (maritacaOptions x)", OF this]
  show "build (map option_of ms) = Inr c \<Longrightarrow> ?thesis"
    by (simp add: defaultOptions_def)
qed

lemma build_StoppingTokens:
  "build (map option_of ms) = Inr c \<Longrightarrow>
     StoppingTokens (maritacaOptions c) = final_value [] StoppingTokens_set_by ms"
proof -
  have "\<And>m a b. option_of m a = Inr b \<Longrightarrow>
      StoppingTokens (maritacaOptions b) = (case StoppingTokens_set_by m of None \<Rightarrow> StoppingTokens (maritacaOptions a) | Some v \<Rightarrow> v)"
    subgoal for m a b
      by (cases m) (auto simp: With_defs split: sum.splits)
    done
  from build_field [where get = "\<lambda>x. StoppingTokens (maritacaOptions x)", OF this]
  show "build (map option_of ms) = Inr c \<Longrightarrow> ?thesis"
    by (simp add: defaultOptions_def)
qed

lemma build_Stream:
  "build (map option_of ms) = Inr c \<Longrightarrow>
     Stream (maritacaOptions c) = final_value False Stream_set_by ms"
proof -
  have "\<And>m a b. option_of m a = Inr b \<Longrightarrow>
      Stream (maritacaOptions b) = (case Stream_set_by m of None \<Rightarrow> Stream (maritacaOptions a) | Some v \<Rightarrow> v)"
    subgoal for m a b
      by (cases m) (auto simp: With_defs split: sum.splits)
    done
  from build_field [where get = "\<lambda>x. Stream (maritacaOptions x)", OF this]
  show "build (map option_of ms) = Inr c \<Longrightarrow> ?thesis"
    by (simp add: defaultOptions_def)
qed

lemma build_NumTokensPerMessage:
  "build (map option_of ms) = Inr c \<Longrightarrow>
     NumTokensPerMessage (maritacaOptions c) = final_value 4 NumTokensPerMessage_set_by ms"
proof -
  have "\<And>m a b. option_of m a = Inr b \<Longrightarrow>
      NumTokensPerMessage (maritacaOptions b) = (case NumTokensPerMessage_set_by m of None \<Rightarrow> NumTokensPerMessage (maritacaOptions a) | Some v \<Rightarrow> v)"
    subgoal for m a b
      by (cases m) (auto simp: With_defs split: sum.splits)
    done
  from build_field [where get = "\<lambda>x. NumTokensPerMessage (maritacaOptions x)", OF this]
  show "build (map option_of ms) = Inr c \<Longrightarrow> ?thesis"
    by (simp add: defaultOptions_def)
qed

lemma build_aborts: "isl (build (map option_of ms)) = list_ex aborts ms"
proof (induction ms rule: rev_induct)
  case Nil
  then show ?case by (simp add: build_def)
next
  case (snoc m ms)
  then show ?case
    by (cases m) (auto simp: build_snoc With_defs split: sum.splits)
qed

text \<open>
  C1: last write wins. A sequence of calls applied to the defaulted struct ends
  the process exactly when one of its calls is the endpoint option on a string
  the parser rejects. Otherwise it yields a struct in which every field holds
  the value written by the last call of the sequence that writes the field, and
  a field no call writes holds its default: chatMode = true, doSample = true,
  temperature = 0.7, topP = 0.95, repetitionPenalty = 1, stream = false,
  tokensPerMessage = 4, and the initial value of \<open>defaultOptions\<close> for the
  fields with no documented default.
\<close>

theorem build_last_write_wins:
  "(isl (build (map option_of ms)) \<longleftrightarrow> list_ex aborts ms) \<and>
   (build (map option_of ms) = Inr c \<longrightarrow>
      maritacaServerURL c = final_value None maritacaServerURL_set_by ms \<and>
      httpClient c = final_value None httpClient_set_by ms \<and>
      model c = final_value [] model_set_by ms \<and>
      customModelTemplate c = final_value [] customModelTemplate_set_by ms \<and>
      system c = final_value [] system_set_by ms \<and>
      format c = final_value [] format_set_by ms \<and>
      Token (maritacaOptions c) = final_value [] Token_set_by ms \<and>
      ChatMode (maritacaOptions c) = final_value True ChatMode_set_by ms \<and>
      MaxTokens (maritacaOptions c) = final_value 0 MaxTokens_set_by ms \<and>
      DoSample (maritacaOptions c) = final_value True DoSample_set_by ms \<and>
      Temperature (maritacaOptions c) = final_value 0.7 Temperature_set_by ms \<and>
      TopP (maritacaOptions c) = final_value 0.95 TopP_set_by ms \<and>
      RepetitionPenalty (maritacaOptions c) = final_value 1 RepetitionPenalty_set_by ms \<and>
      StoppingTokens (maritacaOptions c) = final_value [] StoppingTokens_set_by ms \<and>
      Stream (maritacaOptions c) = final_value False Stream_set_by ms \<and>
      NumTokensPerMessage (maritacaOptions c) = final_value 4 NumTokensPerMessage_set_by ms)"
proof (intro conjI impI)
  show "isl (build (map option_of ms)) \<longleftrightarrow> list_ex aborts ms"
    by (rule build_aborts)
qed (erule build_maritacaServerURL build_httpClient build_model build_customModelTemplate
      build_system build_format build_Token build_ChatMode build_MaxTokens build_DoSample
      build_Temperature build_TopP build_RepetitionPenalty build_StoppingTokens build_Stream
      build_NumTokensPerMessage)+

theorem build_last_write_wins_witness:
  "build (map option_of
     [CallWithTemperature 0.1, CallWithModel ''sabia-2-small'', CallWithStream True,
      CallWithServerURL ''http://localhost:8080'', CallWithTemperature 0.3,
      CallWithModel ''sabia-2-medium'']) =
     Inr (defaultOptions
       \<lparr>maritacaServerURL :=
          Some \<lparr>Scheme = ''http'', Opaque = [], User = None, Host = ''localhost:8080'',
                Path = [], RawPath = [], OmitHost = False, ForceQuery = False, RawQuery = [],
                Fragment = [], RawFragment = []\<rparr>,
        model := ''sabia-2-medium'',
        maritacaOptions := (maritacaOptions defaultOptions)\<lparr>Temperature := 0.3, Stream := True\<rparr>\<rparr>) \<and>
   final_value [] model_set_by
     [CallWithTemperature 0.1, CallWithModel ''sabia-2-small'', CallWithStream True,
      CallWithServerURL ''http://localhost:8080'', CallWithTemperature 0.3,
      CallWithModel ''sabia-2-medium''] = ''sabia-2-medium'' \<and>
   final_value 0.7 Temperature_set_by
     [CallWithTemperature 0.1, CallWithModel ''sabia-2-small'', CallWithStream True,
      CallWithServerURL ''http://localhost:8080'', CallWithTemperature 0.3,
      CallWithModel ''sabia-2-medium''] = 0.3 \<and>
   final_value 0.95 TopP_set_by
     [CallWithTemperature 0.1, CallWithModel ''sabia-2-small'', CallWithStream True,
      CallWithServerURL ''http://localhost:8080'', CallWithTemperature 0.3,
      CallWithModel ''sabia-2-medium''] = 0.95 \<and>
   \<not> list_ex aborts
     [CallWithTemperature 0.1, CallWithModel ''sabia-2-small'', CallWithStream True,
      CallWithServerURL ''http://localhost:8080'', CallWithTemperature 0.3,
      CallWithModel ''sabia-2-medium'']"
proof -
  let ?ms = "[CallWithTemperature 0.1, CallWithModel ''sabia-2-small'', CallWithStream True,
      CallWithServerURL ''http://localhost:8080'', CallWithTemperature 0.3,
      CallWithModel ''sabia-2-medium'']"
  let ?c = "defaultOptions
       \<lparr>maritacaServerURL :=
          Some \<lparr>Scheme = ''http'', Opaque = [], User = None, Host = ''localhost:8080'',
                Path = [], RawPath = [], OmitHost = False, ForceQuery = False, RawQuery = [],
                Fragment = [], RawFragment = []\<rparr>,
        model := ''sabia-2-medium'',
        maritacaOptions := (maritacaOptions defaultOptions)\<lparr>Temperature := 0.3, Stream := True\<rparr>\<rparr>"
  have h: "build (map option_of ?ms) = Inr ?c"
    by (simp add: build_def With_defs Parse_localhost)
  have "model ?c = ''sabia-2-medium''"
    by simp
  moreover have "Temperature (maritacaOptions ?c) = 0.3"
    by simp
  moreover have "TopP (maritacaOptions ?c) = 0.95"
    by (simp add: defaultOptions_def)
  moreover have "\<not> isl (build (map option_of ?ms))"
    unfolding h by simp
  ultimately show ?thesis
    using h build_last_write_wins [of ?ms ?c]
    by simp
qed

text \<open>
  C3: no modifier at all. The build returns, and what it returns is the default
  struct: chatMode = true, doSample = true, temperature = 0.7, topP = 0.95,
  repetitionPenalty = 1, stream = false and tokensPerMessage = 4.
\<close>

theorem build_no_modifier:
  "build [] = Inr defaultOptions \<and>
   ChatMode (maritacaOptions defaultOptions) = True \<and>
   DoSample (maritacaOptions defaultOptions) = True \<and>
   Temperature (maritacaOptions defaultOptions) = 0.7 \<and>
   TopP (maritacaOptions defaultOptions) = 0.95 \<and>
   RepetitionPenalty (maritacaOptions defaultOptions) = 1 \<and>
   Stream (maritacaOptions defaultOptions) = False \<and>
   NumTokensPerMessage (maritacaOptions defaultOptions) = 4"
  by (simp add: build_def defaultOptions_def)

text \<open>
  C7: the sequence model name "sabia-2-medium", max tokens 256, temperature
  0.2, streaming on, tokens per message 8, applied to the defaulted struct,
  returns the struct with exactly these five values and every other field at
  its default: chatMode = true, doSample = true, topP = 0.95,
  repetitionPenalty = 1, and the other fields as in \<open>defaultOptions\<close>.
\<close>

theorem build_sabia_scenario:
  "build [WithModel ''sabia-2-medium'', WithMaxTokens 256, WithTemperature 0.2,
          WithStream True, WithTokensPerMessage 8] =
     Inr \<lparr>maritacaServerURL = None, httpClient = None, model = ''sabia-2-medium'',
          maritacaOptions =
            \<lparr>Token = [], ChatMode = True, MaxTokens = 256, DoSample = True,
             Temperature = 0.2, TopP = 0.95, RepetitionPenalty = 1, StoppingTokens = [],
             Stream = True, NumTokensPerMessage = 8\<rparr>,
          customModelTemplate = [], system = [], format = []\<rparr>"
  by (simp add: build_def defaultOptions_def With_defs)

end
